theory Spec2Isabelle
  imports Main
begin

section \<open>Values, atoms and the calls that leave the process\<close>

text \<open>
  The two sources are \<^verbatim>\<open>opencog/atoms/filedir/TextFileStream.cc\<close> and
  \<^verbatim>\<open>opencog/atoms/terminal/TerminalStream.cc\<close>. A \<^verbatim>\<open>Handle\<close> points to an atom (a
  named node or a link with an outgoing set); a \<^verbatim>\<open>ValuePtr\<close> points to any value, atoms
  included. Only the type distinctions the two files test are kept: \<^verbatim>\<open>ITEM_NODE\<close> and
  \<^verbatim>\<open>SENSORY_NODE\<close> among the nodes, \<^verbatim>\<open>LIST_LINK\<close> and \<^verbatim>\<open>SET_LINK\<close> among the links.
\<close>

datatype node_type = ITEM_NODE | SENSORY_NODE | OTHER_NODE

datatype link_type = LIST_LINK | SET_LINK | OTHER_LINK

datatype Atom = Node node_type string | Link link_type "Atom list"

datatype Value =
    StringValue "string list"
  | AtomValue Atom
  | LinkValue "Value list"
  | OtherValue

text \<open>
  A \<^verbatim>\<open>LinkStreamValue\<close> hands out a fresh batch at every call of \<^verbatim>\<open>value()\<close>. The
  producer behind it is not part of the two files, so it is a function from the number of
  pulls made so far to the batch delivered next; \<open>pulls\<close> is the progress of the stream.
  Batches hold plain values: a stream nested inside a batch is outside this model.
\<close>

record LinkStreamValue =
  batches :: "nat \<Rightarrow> Value list"
  pulls :: nat

datatype ValuePtr = Plain Value | Stream LinkStreamValue

text \<open>
  An open \<^verbatim>\<open>FILE*\<close> is the sequence of buffers that the coming \<^verbatim>\<open>fgets\<close> calls will
  fill, in order; when none is left \<^verbatim>\<open>fgets\<close> returns \<^verbatim>\<open>NULL\<close>. A closed handle
  (\<^verbatim>\<open>nullptr\<close>) is \<open>None\<close>.
\<close>

record FILE =
  unread :: "string list"

text \<open>
  Every call that leaves the process is appended to a log, which each operation takes
  and returns. The bytes a handle has received are the payloads of the \<open>Fprintf\<close>
  entries, in order.
\<close>

datatype event =
    Posix_openpt
  | Unlockpt int
  | Ptsname_r int
  | Printf string
  | Fork
  | Execl string "string list"
  | Close int
  | Fopen string
  | Fgets
  | Fclose
  | Fprintf string
  | Fflush
  | Kill int
  | Execute Atom

text \<open>
  Both files throw \<^verbatim>\<open>RuntimeException\<close> only; the constructors below are its throw
  sites, named after their messages.
\<close>

datatype error =
    Unsupported_URL string
  | Unable_to_open_URL string int
  | Text_stream_not_open_URI string
  | Text_stream_not_open
  | Expecting_something_to_write Atom
  | Expecting_strings Value
  | Cant_open_PTY
  | Cant_unlock_PTY
  | Cant_get_PTY_name
  | Failed_to_fork

text \<open>
  \<^verbatim>\<open>std::string::c_str()\<close> read as a C string, and \<^verbatim>\<open>std::string(const char*)\<close>: the
  characters before the first NUL.
\<close>

definition c_str :: "string \<Rightarrow> string" where
  "c_str s = takeWhile (\<lambda>c. c \<noteq> CHR 0x00) s"

definition executions :: "event list \<Rightarrow> Atom list" where
  "executions log = concat (map (\<lambda>e. case e of Execute a \<Rightarrow> [a] | _ \<Rightarrow> []) log)"

definition sink_bytes :: "event list \<Rightarrow> string" where
  "sink_bytes log = concat (map (\<lambda>e. case e of Fprintf s \<Rightarrow> s | _ \<Rightarrow> []) log)"

definition fgets :: "FILE \<Rightarrow> string option \<times> FILE" where
  "fgets f = (case unread f of [] \<Rightarrow> (None, f) | l # ls \<Rightarrow> (Some l, f\<lparr>unread := ls\<rparr>))"

section \<open>TextFileStream\<close>

record TextFileStream =
  fh :: "FILE option"
  fresh :: bool
  uri :: string
  fvalue :: "Value list"

text \<open>
  \<^verbatim>\<open>TextFileStream::init\<close>. The file system is the outcome of \<^verbatim>\<open>fopen(path, "a+")\<close>
  for each path: \<open>Inl errno\<close> or the opened handle. \<^verbatim>\<open>url.compare(0, 8, "file:///")\<close> is
  zero exactly when the first eight characters of \<open>url\<close> are that literal.

  Line 94 takes \<^verbatim>\<open>url.substr(7).c_str()\<close> and keeps the pointer only: the temporary
  substring is destroyed at the end of that line, and line 95 calls \<^verbatim>\<open>fopen\<close> through
  the pointer. What the bytes at that address read as by then is decided by the memory
  allocator, not by these two files: it is the parameter \<open>stale\<close>, from the text the
  temporary held to the bytes found in its place. \<^verbatim>\<open>fopen\<close> takes them as a C string.
  The three constructors all end in this call (the one from a \<^verbatim>\<open>Handle\<close> passes the
  name of the node).
\<close>

definition TextFileStream_init ::
  "(string \<Rightarrow> string) \<Rightarrow> (string \<Rightarrow> int + FILE) \<Rightarrow> string \<Rightarrow> event list \<Rightarrow>
   (error + TextFileStream) \<times> event list" where
  "TextFileStream_init stale fs url log =
     (if take 8 url \<noteq> ''file:///'' then (Inl (Unsupported_URL url), log)
      else
        let fpath = c_str (stale (drop 7 url));
            log' = log @ [Fopen fpath]
        in case fs fpath of
             Inl norr \<Rightarrow> (Inl (Unable_to_open_URL url norr), log')
           | Inr f \<Rightarrow> (Inr \<lparr>fh = Some f, fresh = True, uri = url, fvalue = []\<rparr>, log'))"

text \<open>\<^verbatim>\<open>TextFileStream::update\<close>: one line per call, after the first call has given the URL.\<close>

definition TextFileStream_update :: "TextFileStream \<Rightarrow> event list \<Rightarrow> TextFileStream \<times> event list" where
  "TextFileStream_update s log =
     (case fh s of
        None \<Rightarrow> (s\<lparr>fvalue := []\<rparr>, log)
      | Some f \<Rightarrow>
          if fresh s then (s\<lparr>fresh := False, fvalue := [AtomValue (Node ITEM_NODE (uri s))]\<rparr>, log)
          else
            (case fgets f of
               (None, f') \<Rightarrow> (s\<lparr>fh := None, fvalue := []\<rparr>, log @ [Fgets, Fclose])
             | (Some buff, f') \<Rightarrow>
                 (s\<lparr>fh := Some f', fvalue := [AtomValue (Node ITEM_NODE (c_str buff))]\<rparr>,
                  log @ [Fgets])))"

text \<open>A caller that polls the stream \<open>n\<close> times in a row.\<close>

fun TextFileStream_updates :: "nat \<Rightarrow> TextFileStream \<Rightarrow> event list \<Rightarrow> TextFileStream \<times> event list" where
  "TextFileStream_updates 0 s log = (s, log)"
| "TextFileStream_updates (Suc n) s log =
     (case TextFileStream_update s log of (s', log') \<Rightarrow> TextFileStream_updates n s' log')"

section \<open>Writing content\<close>

text \<open>
  \<^verbatim>\<open>TextFileStream::prt_value\<close>. An exception leaves what was printed before it in
  place, so the log is returned beside the outcome. The three loops are the list
  functions. Where the source passes a \<^verbatim>\<open>Handle\<close> to \<^verbatim>\<open>prt_value\<close> (the members of a
  \<^verbatim>\<open>ListLink\<close> or \<^verbatim>\<open>SetLink\<close>) the argument is an atom: \<open>prt_handle\<close> is
  \<open>prt_value\<close> on atoms, with the \<^verbatim>\<open>NODE\<close> branch and the branch of the two links.
\<close>

fun fprintf_strs :: "string list \<Rightarrow> event list \<Rightarrow> event list" where
  "fprintf_strs [] log = log"
| "fprintf_strs (str # strs) log = fprintf_strs strs (log @ [Fprintf (c_str str)])"

fun prt_handle :: "Atom \<Rightarrow> event list \<Rightarrow> (error + unit) \<times> event list"
  and prt_handles :: "Atom list \<Rightarrow> event list \<Rightarrow> (error + unit) \<times> event list" where
  "prt_handle (Node t name) log = (Inr (), log @ [Fprintf (CHR '' '' # c_str name)])"
| "prt_handle (Link tc oset) log =
     (if tc = LIST_LINK \<or> tc = SET_LINK then prt_handles oset log
      else (Inl (Expecting_strings (AtomValue (Link tc oset))), log))"
| "prt_handles [] log = (Inr (), log)"
| "prt_handles (h # hs) log =
     (case prt_handle h log of
        (Inl e, log') \<Rightarrow> (Inl e, log')
      | (Inr u, log') \<Rightarrow> prt_handles hs log')"

fun prt_value :: "Value \<Rightarrow> event list \<Rightarrow> (error + unit) \<times> event list"
  and prt_values :: "Value list \<Rightarrow> event list \<Rightarrow> (error + unit) \<times> event list" where
  "prt_value (StringValue strs) log = (Inr (), fprintf_strs strs log)"
| "prt_value (AtomValue h) log = prt_handle h log"
| "prt_value (LinkValue vals) log = prt_values vals log"
| "prt_value OtherValue log = (Inl (Expecting_strings OtherValue), log)"
| "prt_values [] log = (Inr (), log)"
| "prt_values (v # vs) log =
     (case prt_value v log of
        (Inl e, log') \<Rightarrow> (Inl e, log')
      | (Inr u, log') \<Rightarrow> prt_values vs log')"

text \<open>The test of the drain loop: \<^verbatim>\<open>v->is_type(LINK_VALUE) and 0 == v->size()\<close>.\<close>

fun is_empty_LinkValue :: "Value \<Rightarrow> bool" where
  "is_empty_LinkValue (LinkValue vals) = (length vals = 0)"
| "is_empty_LinkValue v = False"

text \<open>
  The \<^verbatim>\<open>for\<close> loop over one batch, with its counter \<^verbatim>\<open>nprinted\<close>. A vector holds
  fewer than \<open>2 ^ 64\<close> items, so the \<^verbatim>\<open>size_t\<close> counter does not wrap.
\<close>

fun prt_batch :: "Value list \<Rightarrow> nat \<Rightarrow> event list \<Rightarrow> (error + nat) \<times> event list" where
  "prt_batch [] nprinted log = (Inr nprinted, log)"
| "prt_batch (v # vs) nprinted log =
     (if is_empty_LinkValue v then prt_batch vs nprinted log
      else case prt_value v log of
             (Inl e, log') \<Rightarrow> (Inl e, log')
           | (Inr u, log') \<Rightarrow> prt_batch vs (nprinted + 1) log')"

definition LinkStreamValue_value :: "LinkStreamValue \<Rightarrow> Value list \<times> LinkStreamValue" where
  "LinkStreamValue_value lvp = (batches lvp (pulls lvp), lvp\<lparr>pulls := Suc (pulls lvp)\<rparr>)"

text \<open>
  The \<^verbatim>\<open>while (true)\<close> loop of \<^verbatim>\<open>write_out\<close>. It need not come to an end: \<open>None\<close> is
  the run that never returns.
\<close>

partial_function (option) drain ::
  "LinkStreamValue \<Rightarrow> event list \<Rightarrow> ((error + LinkStreamValue) \<times> event list) option" where
  "drain lvp log =
     (case LinkStreamValue_value lvp of
        (vals, lvp') \<Rightarrow>
          if length vals = 0 then Some (Inr lvp', log)
          else
            (case prt_batch vals 0 log of
               (Inl e, log') \<Rightarrow> Some (Inl e, log')
             | (Inr nprinted, log') \<Rightarrow>
                 if nprinted = 0 then Some (Inr lvp', log' @ [Fflush])
                 else drain lvp' (log' @ [Fflush])))"

declare drain.simps [code]

text \<open>
  The evaluation context of \<^verbatim>\<open>write_out\<close>: which atoms are executable, and what
  \<^verbatim>\<open>cref->execute(as, silent)\<close> returns (\<open>None\<close> is \<^verbatim>\<open>nullptr\<close>). The call itself is
  recorded in the log.
\<close>

record evaluator =
  is_executable :: "Atom \<Rightarrow> bool"
  execute :: "Atom \<Rightarrow> ValuePtr option"

text \<open>Lines 206 to 238 of \<^verbatim>\<open>TextFileStream::write_out\<close>: print one value, or drain a stream.\<close>

definition write_content ::
  "ValuePtr \<Rightarrow> event list \<Rightarrow> ((error + ValuePtr) \<times> event list) option" where
  "write_content content log =
     (case content of
        Plain v \<Rightarrow>
          (case prt_value v log of
             (Inl e, log') \<Rightarrow> Some (Inl e, log')
           | (Inr u, log') \<Rightarrow> Some (Inr content, log' @ [Fflush]))
      | Stream lvp \<Rightarrow>
          (case drain lvp log of
             None \<Rightarrow> None
           | Some (Inl e, log') \<Rightarrow> Some (Inl e, log')
           | Some (Inr lvp', log') \<Rightarrow> Some (Inr (Stream lvp'), log')))"

definition TextFileStream_write_out ::
  "TextFileStream \<Rightarrow> evaluator \<Rightarrow> Atom \<Rightarrow> event list \<Rightarrow> ((error + ValuePtr) \<times> event list) option" where
  "TextFileStream_write_out s ev cref log =
     (if fh s = None then Some (Inl (Text_stream_not_open_URI (uri s)), log)
      else if is_executable ev cref then
        (case execute ev cref of
           None \<Rightarrow> Some (Inl (Expecting_something_to_write cref), log @ [Execute cref])
         | Some content \<Rightarrow> write_content content (log @ [Execute cref]))
      else write_content (Plain (AtomValue cref)) log)"

section \<open>TerminalStream\<close>

record TerminalStream =
  tfh :: "FILE option"
  xterm_pid :: int
  tvalue :: "Value list"

text \<open>\<^verbatim>\<open>std::to_string\<close> and \<^verbatim>\<open>%d\<close>: the decimal digits, with a sign.\<close>

function digits10 :: "nat \<Rightarrow> string" where
  "digits10 n =
     (if n < 10 then [char_of (48 + n)]
      else digits10 (n div 10) @ [char_of (48 + n mod 10)])"
  by pat_completeness auto
termination
  by (relation "measure id") auto

definition to_string :: "int \<Rightarrow> string" where
  "to_string i = (if i < 0 then CHR ''-'' # digits10 (nat (- i)) else digits10 (nat i))"

text \<open>
  \<^verbatim>\<open>TerminalStream::init\<close>. What the operating system answers is given: the descriptor
  from \<^verbatim>\<open>posix_openpt\<close>, the return codes of \<^verbatim>\<open>unlockpt\<close> and \<^verbatim>\<open>ptsname_r\<close>, the
  device name, what \<^verbatim>\<open>fork\<close> returns in the process that runs the constructor, whether
  \<^verbatim>\<open>execl\<close> comes back (it does only when it fails), and the handle from \<^verbatim>\<open>fopen\<close>,
  whose result the source does not test. In the child a successful \<^verbatim>\<open>execl\<close> replaces
  the program, so the constructor never returns there: \<open>None\<close>.
\<close>

record pty_os =
  posix_openpt_fd :: int
  unlockpt_rc :: int
  ptsname_r_rc :: int
  my_ptsname :: string
  fork_pid :: int
  execl_returns :: bool
  fopen_pts :: "FILE option"

definition TerminalStream_init ::
  "pty_os \<Rightarrow> event list \<Rightarrow> (error + TerminalStream) option \<times> event list" where
  "TerminalStream_init os log =
     (let fd = posix_openpt_fd os;
          log1 = log @ [Posix_openpt]
      in if 0 > fd then (Some (Inl Cant_open_PTY), log1)
      else
        let log2 = log1 @ [Unlockpt fd]
        in if unlockpt_rc os \<noteq> 0 then (Some (Inl Cant_unlock_PTY), log2)
        else
          let log3 = log2 @ [Ptsname_r fd]
          in if ptsname_r_rc os \<noteq> 0 then (Some (Inl Cant_get_PTY_name), log3)
          else
            let name = c_str (my_ptsname os);
                log4 = log3 @ [Printf (''Opened '' @ name @ [CHR 0x0A])];
                ccn = ''-S'' @ name @ ''/'' @ to_string fd;
                pid = fork_pid os;
                log5 = log4 @ [Fork]
            in if pid = - 1 then (Some (Inl Failed_to_fork), log5)
            else
              let log6 = (if pid = 0 then log5 @ [Execl ''/usr/bin/xterm'' [''xterm'', ccn]] else log5)
              in if pid = 0 \<and> \<not> execl_returns os then (None, log6)
              else
                (Some (Inr \<lparr>tfh = fopen_pts os, xterm_pid = pid, tvalue = []\<rparr>),
                 log6 @ [Printf (''Created xterm pid='' @ to_string pid @ [CHR 0x0A]),
                         Close fd, Fopen name]))"

text \<open>\<^verbatim>\<open>TerminalStream::halt\<close>; the destructor is this call.\<close>

definition TerminalStream_halt :: "TerminalStream \<Rightarrow> event list \<Rightarrow> TerminalStream \<times> event list" where
  "TerminalStream_halt t log =
     (let log1 = (if tfh t \<noteq> None then log @ [Fclose] else log);
          log2 = (if xterm_pid t \<noteq> 0 then log1 @ [Kill (xterm_pid t)] else log1)
      in (t\<lparr>tfh := None, xterm_pid := 0, tvalue := []\<rparr>, log2))"

text \<open>\<^verbatim>\<open>TerminalStream::update\<close>.\<close>

definition TerminalStream_update :: "TerminalStream \<Rightarrow> event list \<Rightarrow> TerminalStream \<times> event list" where
  "TerminalStream_update t log =
     (case tfh t of
        None \<Rightarrow> (t\<lparr>tvalue := []\<rparr>, log)
      | Some f \<Rightarrow>
          (case fgets f of
             (None, f') \<Rightarrow> TerminalStream_halt t (log @ [Fgets])
           | (Some buff, f') \<Rightarrow>
               (t\<lparr>tfh := Some f', tvalue := [AtomValue (Node ITEM_NODE (c_str buff))]\<rparr>,
                log @ [Fgets])))"

text \<open>A caller that polls and halts the session in any order.\<close>

datatype terminal_call = Update | Halt

fun TerminalStream_calls ::
  "terminal_call list \<Rightarrow> TerminalStream \<Rightarrow> event list \<Rightarrow> TerminalStream \<times> event list" where
  "TerminalStream_calls [] t log = (t, log)"
| "TerminalStream_calls (Update # cs) t log =
     (case TerminalStream_update t log of (t', log') \<Rightarrow> TerminalStream_calls cs t' log')"
| "TerminalStream_calls (Halt # cs) t log =
     (case TerminalStream_halt t log of (t', log') \<Rightarrow> TerminalStream_calls cs t' log')"

text \<open>
  \<^verbatim>\<open>TerminalStream::write_out\<close>. \<^verbatim>\<open>do_write_out\<close> belongs to the base class, which is
  not among the two files: it is a parameter.
\<close>

definition TerminalStream_write_out ::
  "(evaluator \<Rightarrow> Atom \<Rightarrow> event list \<Rightarrow> ((error + ValuePtr) \<times> event list) option) \<Rightarrow>
   TerminalStream \<Rightarrow> evaluator \<Rightarrow> Atom \<Rightarrow> event list \<Rightarrow> ((error + ValuePtr) \<times> event list) option" where
  "TerminalStream_write_out do_write_out t ev cref log =
     (if tfh t = None then Some (Inl Text_stream_not_open, log)
      else do_write_out ev cref log)"

section \<open>The drain loop on producers of empty wrappers\<close>


lemma prt_batch_all_skipped:
  "\<forall>v\<in>set vals. v = LinkValue [] \<Longrightarrow> prt_batch vals n log = (Inr n, log)"
  by (induction vals) auto

lemma drain_stops_when_nothing_printed:
  assumes "batches lvp (pulls lvp) \<noteq> []"
    and "\<forall>v\<in>set (batches lvp (pulls lvp)). v = LinkValue []"
  shows "drain lvp log = Some (Inr (lvp\<lparr>pulls := Suc (pulls lvp)\<rparr>), log @ [Fflush])"
  using assms by (subst drain.simps) (simp add: LinkStreamValue_value_def prt_batch_all_skipped)

text \<open>
  Claim C1. Let the content of \<^verbatim>\<open>write_out\<close> on an open file stream evaluate to a
  stream whose every batch is non-empty and holds empty \<^verbatim>\<open>LinkValue\<close>s only. Then
  \<^verbatim>\<open>write_out\<close> returns: it has pulled exactly one batch (the progress of the returned
  stream is one more than before), printed nothing and flushed once.
\<close>

theorem write_out_returns_after_one_pull:
  assumes "fh s \<noteq> None"
    and "is_executable ev cref"
    and "execute ev cref = Some (Stream lvp)"
    and "\<forall>k. batches lvp k \<noteq> [] \<and> (\<forall>v\<in>set (batches lvp k). v = LinkValue [])"
  shows "TextFileStream_write_out s ev cref log =
           Some (Inr (Stream (lvp\<lparr>pulls := Suc (pulls lvp)\<rparr>)), log @ [Execute cref, Fflush])"
proof -
  from assms(4) have "batches lvp (pulls lvp) \<noteq> []"
    and "\<forall>v\<in>set (batches lvp (pulls lvp)). v = LinkValue []"
    by blast+
  then have "drain lvp (log @ [Execute cref]) =
      Some (Inr (lvp\<lparr>pulls := Suc (pulls lvp)\<rparr>), (log @ [Execute cref]) @ [Fflush])"
    by (rule drain_stops_when_nothing_printed)
  with assms(1-3) show ?thesis
    by (simp add: TextFileStream_write_out_def write_content_def)
qed

theorem write_out_returns_after_one_pull_witness:
  "fh \<lparr>fh = Some \<lparr>unread = []\<rparr>, fresh = False, uri = ''file:///tmp/x'', fvalue = []\<rparr> \<noteq> None
   \<and> is_executable \<lparr>is_executable = (\<lambda>a. True),
        execute = (\<lambda>a. Some (Stream \<lparr>batches = (\<lambda>k. [LinkValue [], LinkValue []]), pulls = 0\<rparr>))\<rparr>
        (Link OTHER_LINK [])
   \<and> TextFileStream_write_out
        \<lparr>fh = Some \<lparr>unread = []\<rparr>, fresh = False, uri = ''file:///tmp/x'', fvalue = []\<rparr>
        \<lparr>is_executable = (\<lambda>a. True),
         execute = (\<lambda>a. Some (Stream \<lparr>batches = (\<lambda>k. [LinkValue [], LinkValue []]), pulls = 0\<rparr>))\<rparr>
        (Link OTHER_LINK []) []
      = Some (Inr (Stream \<lparr>batches = (\<lambda>k. [LinkValue [], LinkValue []]), pulls = Suc 0\<rparr>),
              [Execute (Link OTHER_LINK []), Fflush])"
  using write_out_returns_after_one_pull
    [of "\<lparr>fh = Some \<lparr>unread = []\<rparr>, fresh = False, uri = ''file:///tmp/x'', fvalue = []\<rparr>"
        "\<lparr>is_executable = (\<lambda>a. True),
         execute = (\<lambda>a. Some (Stream \<lparr>batches = (\<lambda>k. [LinkValue [], LinkValue []]), pulls = 0\<rparr>))\<rparr>"
        "Link OTHER_LINK []"
        "\<lparr>batches = (\<lambda>k. [LinkValue [], LinkValue []]), pulls = 0\<rparr>" "[]"]
  by simp

section \<open>The first two polls of a file stream\<close>

text \<open>
  Claim C2. On a file stream that \<^verbatim>\<open>init\<close> has just built from \<open>url\<close>, the first
  \<^verbatim>\<open>update\<close> leaves exactly one item, the \<^verbatim>\<open>ItemNode\<close> named \<open>url\<close>, calls nothing
  (the log and the handle are as before), and the second \<^verbatim>\<open>update\<close> calls \<^verbatim>\<open>fgets\<close>
  on the file: it either delivers the buffer read or, at the end of the file, closes.
\<close>

theorem first_update_gives_uri_second_reads:
  assumes "TextFileStream_init stale fs url l0 = (Inr s0, l1)"
    and "TextFileStream_update s0 l1 = (s1, l2)"
    and "TextFileStream_update s1 l2 = (s2, l3)"
  shows "fvalue s1 = [AtomValue (Node ITEM_NODE url)] \<and> l2 = l1 \<and> fh s1 = fh s0 \<and>
         (\<exists>f. fh s1 = Some f \<and>
            (case unread f of
               [] \<Rightarrow> l3 = l2 @ [Fgets, Fclose] \<and> fh s2 = None \<and> fvalue s2 = []
             | b # bs \<Rightarrow> l3 = l2 @ [Fgets] \<and> fh s2 = Some (f\<lparr>unread := bs\<rparr>) \<and>
                 fvalue s2 = [AtomValue (Node ITEM_NODE (c_str b))]))"
proof -
  from assms(1) obtain f where s0: "s0 = \<lparr>fh = Some f, fresh = True, uri = url, fvalue = []\<rparr>"
    by (auto simp: TextFileStream_init_def Let_def split: if_splits sum.splits)
  with assms(2) have s1: "s1 = \<lparr>fh = Some f, fresh = False, uri = url,
      fvalue = [AtomValue (Node ITEM_NODE url)]\<rparr>" and l2: "l2 = l1"
    by (simp_all add: TextFileStream_update_def)
  show ?thesis
  proof (cases "unread f")
    case Nil
    with assms(3) s0 s1 l2 show ?thesis
      by (auto simp: TextFileStream_update_def fgets_def)
  next
    case (Cons b bs)
    with assms(3) s0 s1 l2 show ?thesis
      by (auto simp: TextFileStream_update_def fgets_def)
  qed
qed

theorem first_update_gives_uri_second_reads_witness:
  "TextFileStream_init (\<lambda>b. b) (\<lambda>p. if p = ''/tmp/x'' then Inr \<lparr>unread = [''hello'']\<rparr> else Inl 2)
       ''file:///tmp/x'' []
     = (Inr \<lparr>fh = Some \<lparr>unread = [''hello'']\<rparr>, fresh = True, uri = ''file:///tmp/x'', fvalue = []\<rparr>,
        [Fopen ''/tmp/x''])
   \<and> TextFileStream_update
        \<lparr>fh = Some \<lparr>unread = [''hello'']\<rparr>, fresh = True, uri = ''file:///tmp/x'', fvalue = []\<rparr>
        [Fopen ''/tmp/x'']
     = (\<lparr>fh = Some \<lparr>unread = [''hello'']\<rparr>, fresh = False, uri = ''file:///tmp/x'',
         fvalue = [AtomValue (Node ITEM_NODE ''file:///tmp/x'')]\<rparr>, [Fopen ''/tmp/x''])
   \<and> TextFileStream_update
        \<lparr>fh = Some \<lparr>unread = [''hello'']\<rparr>, fresh = False, uri = ''file:///tmp/x'',
         fvalue = [AtomValue (Node ITEM_NODE ''file:///tmp/x'')]\<rparr> [Fopen ''/tmp/x'']
     = (\<lparr>fh = Some \<lparr>unread = []\<rparr>, fresh = False, uri = ''file:///tmp/x'',
         fvalue = [AtomValue (Node ITEM_NODE ''hello'')]\<rparr>, [Fopen ''/tmp/x'', Fgets])"
proof -
  have h1: "TextFileStream_init (\<lambda>b. b) (\<lambda>p. if p = ''/tmp/x'' then Inr \<lparr>unread = [''hello'']\<rparr> else Inl 2)
       ''file:///tmp/x'' []
     = (Inr \<lparr>fh = Some \<lparr>unread = [''hello'']\<rparr>, fresh = True, uri = ''file:///tmp/x'', fvalue = []\<rparr>,
        [Fopen ''/tmp/x''])"
    by (simp add: TextFileStream_init_def c_str_def Let_def)
  have h2: "TextFileStream_update
        \<lparr>fh = Some \<lparr>unread = [''hello'']\<rparr>, fresh = True, uri = ''file:///tmp/x'', fvalue = []\<rparr>
        [Fopen ''/tmp/x'']
     = (\<lparr>fh = Some \<lparr>unread = [''hello'']\<rparr>, fresh = False, uri = ''file:///tmp/x'',
         fvalue = [AtomValue (Node ITEM_NODE ''file:///tmp/x'')]\<rparr>, [Fopen ''/tmp/x''])"
    by (simp add: TextFileStream_update_def)
  have h3: "TextFileStream_update
        \<lparr>fh = Some \<lparr>unread = [''hello'']\<rparr>, fresh = False, uri = ''file:///tmp/x'',
         fvalue = [AtomValue (Node ITEM_NODE ''file:///tmp/x'')]\<rparr> [Fopen ''/tmp/x'']
     = (\<lparr>fh = Some \<lparr>unread = []\<rparr>, fresh = False, uri = ''file:///tmp/x'',
         fvalue = [AtomValue (Node ITEM_NODE ''hello'')]\<rparr>, [Fopen ''/tmp/x'', Fgets])"
    by (simp add: TextFileStream_update_def fgets_def c_str_def)
  from first_update_gives_uri_second_reads [OF h1 h2 h3] h1 h2 h3 show ?thesis
    by simp
qed

section \<open>Closed streams\<close>

lemma init_value_empty:
  "TextFileStream_init stale fs url l0 = (Inr s0, l1) \<Longrightarrow> fvalue s0 = []"
  by (auto simp: TextFileStream_init_def Let_def split: if_splits sum.splits)

lemma update_keeps_closed_empty:
  assumes "fh s = None \<longrightarrow> fvalue s = []"
    and "TextFileStream_update s l = (s', l')"
  shows "fh s' = None \<longrightarrow> fvalue s' = []"
  using assms
  by (auto simp: TextFileStream_update_def fgets_def split: option.splits if_splits list.splits)

lemma updates_keep_closed_empty:
  "(fh s = None \<longrightarrow> fvalue s = []) \<Longrightarrow> TextFileStream_updates n s l = (s', l') \<Longrightarrow>
   fh s' = None \<longrightarrow> fvalue s' = []"
proof (induction n arbitrary: s l)
  case 0
  then show ?case by simp
next
  case (Suc n)
  obtain s1 l1 where step: "TextFileStream_update s l = (s1, l1)"
    by (cases "TextFileStream_update s l")
  with Suc.prems(2) have rest: "TextFileStream_updates n s1 l1 = (s', l')"
    by simp
  from Suc.prems(1) step have "fh s1 = None \<longrightarrow> fvalue s1 = []"
    by (rule update_keeps_closed_empty)
  from Suc.IH [OF this rest] show ?case .
qed

lemma update_closed_noop:
  "fh s = None \<Longrightarrow> fvalue s = [] \<Longrightarrow> TextFileStream_update s l = (s, l)"
  by (simp add: TextFileStream_update_def)

lemma updates_closed_noop:
  "fh s = None \<Longrightarrow> fvalue s = [] \<Longrightarrow> TextFileStream_updates m s l = (s, l)"
  by (induction m) (simp_all add: update_closed_noop)

lemma terminal_init_value_empty:
  "TerminalStream_init os k0 = (Some (Inr t0), k1) \<Longrightarrow> tvalue t0 = []"
  by (auto simp: TerminalStream_init_def Let_def split: if_splits)

lemma halt_closed: "TerminalStream_halt t k = (t', k') \<Longrightarrow> tfh t' = None \<and> tvalue t' = [] \<and> xterm_pid t' = 0"
  by (auto simp: TerminalStream_halt_def Let_def)

lemma terminal_update_keeps_closed_empty:
  assumes "tfh t = None \<longrightarrow> tvalue t = []"
    and "TerminalStream_update t k = (t', k')"
  shows "tfh t' = None \<longrightarrow> tvalue t' = []"
  using assms
  by (auto simp: TerminalStream_update_def fgets_def dest: halt_closed
      split: option.splits list.splits)

lemma calls_keep_closed_empty:
  "(tfh t = None \<longrightarrow> tvalue t = []) \<Longrightarrow> TerminalStream_calls cs t k = (t', k') \<Longrightarrow>
   tfh t' = None \<longrightarrow> tvalue t' = []"
proof (induction cs t k rule: TerminalStream_calls.induct)
  case (1 t log)
  then show ?case by simp
next
  case (2 cs t log)
  obtain t1 k1 where step: "TerminalStream_update t log = (t1, k1)"
    by (cases "TerminalStream_update t log")
  with "2.prems"(2) have rest: "TerminalStream_calls cs t1 k1 = (t', k')"
    by simp
  from "2.prems"(1) step have "tfh t1 = None \<longrightarrow> tvalue t1 = []"
    by (rule terminal_update_keeps_closed_empty)
  with "2.IH" step rest show ?case by simp
next
  case (3 cs t log)
  obtain t1 k1 where step: "TerminalStream_halt t log = (t1, k1)"
    by (cases "TerminalStream_halt t log")
  with "3.prems"(2) have rest: "TerminalStream_calls cs t1 k1 = (t', k')"
    by simp
  from step have "tfh t1 = None \<longrightarrow> tvalue t1 = []"
    by (simp add: halt_closed)
  with "3.IH" step rest show ?case by simp
qed

lemma terminal_update_closed_noop:
  "tfh t = None \<Longrightarrow> tvalue t = [] \<Longrightarrow> TerminalStream_update t k = (t, k)"
  by (simp add: TerminalStream_update_def)

lemma terminal_updates_closed_noop:
  "tfh t = None \<Longrightarrow> tvalue t = [] \<Longrightarrow> TerminalStream_calls (replicate m Update) t k = (t, k)"
  by (induction m) (simp_all add: terminal_update_closed_noop)

lemma terminal_calls_stay_closed:
  "tfh t = None \<Longrightarrow> tfh (fst (TerminalStream_calls ds t k)) = None"
proof (induction ds arbitrary: t k)
  case Nil
  then show ?case by simp
next
  case (Cons d ds)
  show ?case
  proof (cases d)
    case Update
    with Cons show ?thesis
      by (simp add: TerminalStream_update_def)
  next
    case Halt
    with Cons show ?thesis
      by (simp add: TerminalStream_halt_def Let_def)
  qed
qed

text \<open>
  Claim C3. Take a file stream built by \<^verbatim>\<open>init\<close> and polled any number of times, or a
  terminal session built by \<^verbatim>\<open>init\<close> and then polled and halted in any order. Whenever
  its handle is null its current value is empty, every further \<^verbatim>\<open>update\<close> changes
  neither the object nor the log (\<^verbatim>\<open>update\<close> has no way to fail), and the handle stays
  null under all further calls. The end of the resource is how a poll nulls the handle.
  \<^verbatim>\<open>write_out\<close> assigns no field of the stream, so writes in between change nothing
  of this.
\<close>

theorem closed_stream_is_empty_and_stays_closed:
  "(TextFileStream_init stale fs url l0 = (Inr s0, l1) \<longrightarrow> TextFileStream_updates n s0 l1 = (s, l2) \<longrightarrow>
      fh s = None \<longrightarrow>
        fvalue s = [] \<and> (\<forall>m l. TextFileStream_updates m s l = (s, l)))
   \<and> (TerminalStream_init os k0 = (Some (Inr t0), k1) \<longrightarrow> TerminalStream_calls cs t0 k1 = (t, k2) \<longrightarrow>
      tfh t = None \<longrightarrow>
        tvalue t = [] \<and> (\<forall>m k. TerminalStream_calls (replicate m Update) t k = (t, k))
        \<and> (\<forall>ds k. tfh (fst (TerminalStream_calls ds t k)) = None))"
proof (intro conjI impI)
  assume a: "TextFileStream_init stale fs url l0 = (Inr s0, l1)"
    "TextFileStream_updates n s0 l1 = (s, l2)" "fh s = None"
  from a(1) have "fh s0 = None \<longrightarrow> fvalue s0 = []"
    by (simp add: init_value_empty)
  from updates_keep_closed_empty [OF this a(2)] a(3) show e: "fvalue s = []"
    by simp
  from a(3) e show "\<forall>m l. TextFileStream_updates m s l = (s, l)"
    by (simp add: updates_closed_noop)
next
  assume b: "TerminalStream_init os k0 = (Some (Inr t0), k1)"
    "TerminalStream_calls cs t0 k1 = (t, k2)" "tfh t = None"
  from b(1) have "tfh t0 = None \<longrightarrow> tvalue t0 = []"
    by (simp add: terminal_init_value_empty)
  from calls_keep_closed_empty [OF this b(2)] b(3) show e: "tvalue t = []"
    by simp
  from b(3) e show "\<forall>m k. TerminalStream_calls (replicate m Update) t k = (t, k)"
    by (simp add: terminal_updates_closed_noop)
  from b(3) show "\<forall>ds k. tfh (fst (TerminalStream_calls ds t k)) = None"
    by (simp add: terminal_calls_stay_closed)
qed

theorem closed_stream_is_empty_and_stays_closed_witness:
  "TextFileStream_init (\<lambda>b. b) (\<lambda>p. if p = ''/tmp/x'' then Inr \<lparr>unread = []\<rparr> else Inl 2)
       ''file:///tmp/x'' []
     = (Inr \<lparr>fh = Some \<lparr>unread = []\<rparr>, fresh = True, uri = ''file:///tmp/x'', fvalue = []\<rparr>,
        [Fopen ''/tmp/x''])
   \<and> TextFileStream_updates 2
        \<lparr>fh = Some \<lparr>unread = []\<rparr>, fresh = True, uri = ''file:///tmp/x'', fvalue = []\<rparr>
        [Fopen ''/tmp/x'']
     = (\<lparr>fh = None, fresh = False, uri = ''file:///tmp/x'', fvalue = []\<rparr>,
        [Fopen ''/tmp/x'', Fgets, Fclose])
   \<and> fh \<lparr>fh = None, fresh = False, uri = ''file:///tmp/x'', fvalue = []\<rparr> = None
   \<and> fvalue \<lparr>fh = None, fresh = False, uri = ''file:///tmp/x'', fvalue = []\<rparr> = []
   \<and> TextFileStream_updates 3 \<lparr>fh = None, fresh = False, uri = ''file:///tmp/x'', fvalue = []\<rparr>
        [Fopen ''/tmp/x'', Fgets, Fclose]
     = (\<lparr>fh = None, fresh = False, uri = ''file:///tmp/x'', fvalue = []\<rparr>,
        [Fopen ''/tmp/x'', Fgets, Fclose])
   \<and> TerminalStream_init
        \<lparr>posix_openpt_fd = 5, unlockpt_rc = 0, ptsname_r_rc = 0, my_ptsname = ''/dev/pts/3'',
         fork_pid = 1234, execl_returns = False, fopen_pts = Some \<lparr>unread = [''ls'']\<rparr>\<rparr> []
     = (Some (Inr \<lparr>tfh = Some \<lparr>unread = [''ls'']\<rparr>, xterm_pid = 1234, tvalue = []\<rparr>),
        [Posix_openpt, Unlockpt 5, Ptsname_r 5, Printf (''Opened /dev/pts/3'' @ [CHR 0x0A]), Fork,
         Printf (''Created xterm pid=1234'' @ [CHR 0x0A]), Close 5, Fopen ''/dev/pts/3''])
   \<and> TerminalStream_calls [Update, Update]
        \<lparr>tfh = Some \<lparr>unread = [''ls'']\<rparr>, xterm_pid = 1234, tvalue = []\<rparr>
        [Posix_openpt, Unlockpt 5, Ptsname_r 5, Printf (''Opened /dev/pts/3'' @ [CHR 0x0A]), Fork,
         Printf (''Created xterm pid=1234'' @ [CHR 0x0A]), Close 5, Fopen ''/dev/pts/3'']
     = (\<lparr>tfh = None, xterm_pid = 0, tvalue = []\<rparr>,
        [Posix_openpt, Unlockpt 5, Ptsname_r 5, Printf (''Opened /dev/pts/3'' @ [CHR 0x0A]), Fork,
         Printf (''Created xterm pid=1234'' @ [CHR 0x0A]), Close 5, Fopen ''/dev/pts/3'',
         Fgets, Fgets, Fclose, Kill 1234])
   \<and> tfh \<lparr>tfh = None, xterm_pid = 0, tvalue = []\<rparr> = None
   \<and> tvalue \<lparr>tfh = None, xterm_pid = 0, tvalue = []\<rparr> = []
   \<and> TerminalStream_calls (replicate 3 Update) \<lparr>tfh = None, xterm_pid = 0, tvalue = []\<rparr> [Fgets]
     = (\<lparr>tfh = None, xterm_pid = 0, tvalue = []\<rparr>, [Fgets])
   \<and> tfh (fst (TerminalStream_calls [Halt, Update] \<lparr>tfh = None, xterm_pid = 0, tvalue = []\<rparr> [])) = None"
proof -
  let ?fs = "\<lambda>p. if p = ''/tmp/x'' then Inr \<lparr>unread = []\<rparr> else Inl (2::int)"
  let ?sinit = "\<lparr>fh = Some \<lparr>unread = []\<rparr>, fresh = True, uri = ''file:///tmp/x'', fvalue = []\<rparr>"
  let ?sclosed = "\<lparr>fh = None, fresh = False, uri = ''file:///tmp/x'', fvalue = []\<rparr>"
  let ?os = "\<lparr>posix_openpt_fd = 5, unlockpt_rc = 0, ptsname_r_rc = 0, my_ptsname = ''/dev/pts/3'',
         fork_pid = 1234, execl_returns = False, fopen_pts = Some \<lparr>unread = [''ls'']\<rparr>\<rparr>"
  let ?tinit = "\<lparr>tfh = Some \<lparr>unread = [''ls'']\<rparr>, xterm_pid = 1234, tvalue = []\<rparr>"
  let ?tclosed = "\<lparr>tfh = None, xterm_pid = 0, tvalue = []\<rparr>"
  let ?kinit = "[Posix_openpt, Unlockpt 5, Ptsname_r 5, Printf (''Opened /dev/pts/3'' @ [CHR 0x0A]), Fork,
         Printf (''Created xterm pid=1234'' @ [CHR 0x0A]), Close 5, Fopen ''/dev/pts/3'']"
  let ?kclosed = "[Posix_openpt, Unlockpt 5, Ptsname_r 5, Printf (''Opened /dev/pts/3'' @ [CHR 0x0A]), Fork,
         Printf (''Created xterm pid=1234'' @ [CHR 0x0A]), Close 5, Fopen ''/dev/pts/3'',
         Fgets, Fgets, Fclose, Kill 1234]"
  have f1: "TextFileStream_init (\<lambda>b. b) ?fs ''file:///tmp/x'' [] = (Inr ?sinit, [Fopen ''/tmp/x''])"
    by (simp add: TextFileStream_init_def c_str_def Let_def)
  have f2: "TextFileStream_updates 2 ?sinit [Fopen ''/tmp/x''] = (?sclosed, [Fopen ''/tmp/x'', Fgets, Fclose])"
    by code_simp
  have f3: "fh ?sclosed = None"
    by simp
  have g1: "TerminalStream_init ?os [] = (Some (Inr ?tinit), ?kinit)"
    by code_simp
  have g2: "TerminalStream_calls [Update, Update] ?tinit ?kinit = (?tclosed, ?kclosed)"
    by code_simp
  have g3: "tfh ?tclosed = None"
    by simp
  note inst = closed_stream_is_empty_and_stays_closed
    [of "\<lambda>b. b" ?fs "''file:///tmp/x''" "[]" ?sinit "[Fopen ''/tmp/x'']" 2 ?sclosed "[Fopen ''/tmp/x'', Fgets, Fclose]"
        ?os "[]" ?tinit ?kinit "[Update, Update]" ?tclosed ?kclosed]
  from inst f1 f2 f3 have f4: "fvalue ?sclosed = []"
    and f5: "\<forall>m l. TextFileStream_updates m ?sclosed l = (?sclosed, l)"
    by blast+
  from inst g1 g2 g3 have g4: "tvalue ?tclosed = []"
    and g5: "\<forall>m k. TerminalStream_calls (replicate m Update) ?tclosed k = (?tclosed, k)"
    and g6: "\<forall>ds k. tfh (fst (TerminalStream_calls ds ?tclosed k)) = None"
    by blast+
  from f5 have f6: "TextFileStream_updates 3 ?sclosed [Fopen ''/tmp/x'', Fgets, Fclose]
      = (?sclosed, [Fopen ''/tmp/x'', Fgets, Fclose])"
    by blast
  from g5 have g7: "TerminalStream_calls (replicate 3 Update) ?tclosed [Fgets] = (?tclosed, [Fgets])"
    by blast
  from g6 have g8: "tfh (fst (TerminalStream_calls [Halt, Update] ?tclosed [])) = None"
    by blast
  show ?thesis
    by (intro conjI) (fact f1 f2 f3 f4 f6 g1 g2 g3 g4 g7 g8)+
qed

text \<open>
  Claim C4. \<^verbatim>\<open>write_out\<close> on a stream whose handle is null throws the stream-not-open
  exception, whatever the content and the evaluation context, for the file stream and for
  the terminal session alike.
\<close>

theorem write_out_on_closed_stream_fails:
  "(fh s = None \<longrightarrow>
      TextFileStream_write_out s ev cref log = Some (Inl (Text_stream_not_open_URI (uri s)), log))
   \<and> (tfh t = None \<longrightarrow>
      TerminalStream_write_out do_write_out t ev cref log = Some (Inl Text_stream_not_open, log))"
  unfolding TextFileStream_write_out_def TerminalStream_write_out_def by simp

theorem write_out_on_closed_stream_fails_witness:
  "fh \<lparr>fh = None, fresh = False, uri = ''file:///tmp/x'', fvalue = []\<rparr> = None
   \<and> TextFileStream_write_out \<lparr>fh = None, fresh = False, uri = ''file:///tmp/x'', fvalue = []\<rparr>
        \<lparr>is_executable = (\<lambda>a. False), execute = (\<lambda>a. None)\<rparr> (Node ITEM_NODE ''foo'') []
     = Some (Inl (Text_stream_not_open_URI ''file:///tmp/x''), [])
   \<and> tfh \<lparr>tfh = None, xterm_pid = 0, tvalue = []\<rparr> = None
   \<and> TerminalStream_write_out (\<lambda>ev cref log. Some (Inr (Plain (AtomValue cref)), log))
        \<lparr>tfh = None, xterm_pid = 0, tvalue = []\<rparr>
        \<lparr>is_executable = (\<lambda>a. False), execute = (\<lambda>a. None)\<rparr> (Node ITEM_NODE ''foo'') []
     = Some (Inl Text_stream_not_open, [])"
  using write_out_on_closed_stream_fails
    [of "\<lparr>fh = None, fresh = False, uri = ''file:///tmp/x'', fvalue = []\<rparr>"
        "\<lparr>is_executable = (\<lambda>a. False), execute = (\<lambda>a. None)\<rparr>" "Node ITEM_NODE ''foo''" "[]"
        "\<lparr>tfh = None, xterm_pid = 0, tvalue = []\<rparr>"
        "\<lambda>ev cref log. Some (Inr (Plain (AtomValue cref)), log)"]
  by simp

section \<open>The terminal session\<close>

text \<open>
  Claim C5. \<^verbatim>\<open>TerminalStream::update\<close> on an open session reads at once: with a buffer
  to read it delivers that buffer, on the first call as on any other, so there is no
  warm-up value. At the end of the resource it does what \<^verbatim>\<open>halt\<close> does: the handle is
  closed and nulled, a child still tracked is sent the kill signal and its id is set to
  zero, and the current value is cleared.
\<close>

theorem terminal_update_reads_at_once_and_halts_at_end:
  "(tfh t = Some f \<longrightarrow> unread f = b # bs \<longrightarrow>
      TerminalStream_update t log =
        (t\<lparr>tfh := Some (f\<lparr>unread := bs\<rparr>), tvalue := [AtomValue (Node ITEM_NODE (c_str b))]\<rparr>,
         log @ [Fgets]))
   \<and> (tfh t = Some f \<longrightarrow> unread f = [] \<longrightarrow>
      TerminalStream_update t log = TerminalStream_halt t (log @ [Fgets])
      \<and> TerminalStream_update t log =
          (\<lparr>tfh = None, xterm_pid = 0, tvalue = []\<rparr>,
           log @ [Fgets, Fclose] @ (if xterm_pid t \<noteq> 0 then [Kill (xterm_pid t)] else [])))"
  by (cases t) (simp add: TerminalStream_update_def TerminalStream_halt_def fgets_def Let_def)

theorem terminal_update_reads_at_once_and_halts_at_end_witness:
  "tfh \<lparr>tfh = Some \<lparr>unread = [''ls'']\<rparr>, xterm_pid = 1234, tvalue = []\<rparr> = Some \<lparr>unread = [''ls'']\<rparr>
   \<and> unread \<lparr>unread = [''ls'']\<rparr> = ''ls'' # []
   \<and> TerminalStream_update \<lparr>tfh = Some \<lparr>unread = [''ls'']\<rparr>, xterm_pid = 1234, tvalue = []\<rparr> []
     = (\<lparr>tfh = Some \<lparr>unread = []\<rparr>, xterm_pid = 1234, tvalue = [AtomValue (Node ITEM_NODE ''ls'')]\<rparr>,
        [Fgets])
   \<and> tfh \<lparr>tfh = Some \<lparr>unread = []\<rparr>, xterm_pid = 1234, tvalue = [AtomValue (Node ITEM_NODE ''ls'')]\<rparr>
     = Some \<lparr>unread = []\<rparr>
   \<and> unread \<lparr>unread = []\<rparr> = []
   \<and> TerminalStream_update
        \<lparr>tfh = Some \<lparr>unread = []\<rparr>, xterm_pid = 1234, tvalue = [AtomValue (Node ITEM_NODE ''ls'')]\<rparr>
        [Fgets]
     = (\<lparr>tfh = None, xterm_pid = 0, tvalue = []\<rparr>, [Fgets, Fgets, Fclose, Kill 1234])"
  using terminal_update_reads_at_once_and_halts_at_end
    [of "\<lparr>tfh = Some \<lparr>unread = [''ls'']\<rparr>, xterm_pid = 1234, tvalue = []\<rparr>" "\<lparr>unread = [''ls'']\<rparr>"
        "''ls''" "[]" "[]"]
    terminal_update_reads_at_once_and_halts_at_end
    [of "\<lparr>tfh = Some \<lparr>unread = []\<rparr>, xterm_pid = 1234, tvalue = [AtomValue (Node ITEM_NODE ''ls'')]\<rparr>"
        "\<lparr>unread = []\<rparr>" "''x''" "[]" "[Fgets]"]
  by (simp add: c_str_def TerminalStream_halt_def Let_def)

text \<open>
  Claim C8. A second \<^verbatim>\<open>halt\<close> right after a first one changes nothing: it returns the
  same object and the same log (no further close, no further signal), and the object is
  the closed one, with a null handle, no tracked child and an empty value. \<^verbatim>\<open>halt\<close> has
  no way to fail, and the destructor is a call of it.
\<close>

theorem halt_twice_is_halt_once:
  "TerminalStream_halt (fst (TerminalStream_halt t log)) (snd (TerminalStream_halt t log))
     = TerminalStream_halt t log
   \<and> fst (TerminalStream_halt t log) = \<lparr>tfh = None, xterm_pid = 0, tvalue = []\<rparr>"
  by (cases t) (simp add: TerminalStream_halt_def Let_def)

section \<open>What the serializer writes\<close>

lemma fprintf_strs_eq: "fprintf_strs strs log = log @ map (\<lambda>str. Fprintf (c_str str)) strs"
  by (induction strs arbitrary: log) simp_all

lemma sink_bytes_append: "sink_bytes (log @ log') = sink_bytes log @ sink_bytes log'"
  by (simp add: sink_bytes_def)

lemma sink_bytes_fprintfs: "sink_bytes (map (\<lambda>str. Fprintf (c_str str)) strs) = concat (map c_str strs)"
  by (induction strs) (simp_all add: sink_bytes_def)

lemma c_str_without_NUL: "CHR 0x00 \<notin> set s \<Longrightarrow> c_str s = s"
  unfolding c_str_def by (rule takeWhile_eq_all_conv [THEN iffD2]) auto

lemma map_c_str_without_NUL: "\<forall>str\<in>set strs. CHR 0x00 \<notin> set str \<Longrightarrow> map c_str strs = strs"
  by (induction strs) (simp_all add: c_str_without_NUL)

text \<open>
  Claim C6 does not hold for every text: \<^verbatim>\<open>fprintf\<close> with \<^verbatim>\<open>%s\<close> is given \<^verbatim>\<open>c_str()\<close>
  and stops at the first NUL. The element of three characters \<open>a\<close>, NUL, \<open>b\<close> leaves
  the single byte \<open>a\<close> in the sink.
\<close>

theorem text_sequence_truncated_counterexample:
  "sink_bytes (snd (prt_value (StringValue [[CHR ''a'', CHR 0x00, CHR ''b'']]) [])) = ''a''
   \<and> sink_bytes (snd (prt_value (StringValue [[CHR ''a'', CHR 0x00, CHR ''b'']]) []))
       \<noteq> concat [[CHR ''a'', CHR 0x00, CHR ''b'']]"
  by (simp add: sink_bytes_def c_str_def)

text \<open>
  Claim C6, as the code has it. Serializing a text sequence writes, for each element in
  order, its characters before the first NUL (all of them when it has none), with nothing
  between the elements; serializing a node writes one space and then its name, again up
  to the first NUL. For texts and names without NUL these are the raw characters:
  \<open>[''ab'', ''cd'']\<close> gives \<open>''abcd''\<close> and the item \<open>''foo''\<close> gives \<open>'' foo''\<close>.
\<close>

theorem serialize_text_and_named_item:
  "prt_value (StringValue strs) log = (Inr (), log @ map (\<lambda>str. Fprintf (c_str str)) strs)
   \<and> sink_bytes (snd (prt_value (StringValue strs) log)) = sink_bytes log @ concat (map c_str strs)
   \<and> ((\<forall>str\<in>set strs. CHR 0x00 \<notin> set str) \<longrightarrow>
        sink_bytes (snd (prt_value (StringValue strs) log)) = sink_bytes log @ concat strs)
   \<and> prt_value (AtomValue (Node t name)) log = (Inr (), log @ [Fprintf (CHR '' '' # c_str name)])
   \<and> sink_bytes (snd (prt_value (AtomValue (Node t name)) log)) = sink_bytes log @ '' '' @ c_str name
   \<and> (CHR 0x00 \<notin> set name \<longrightarrow>
        sink_bytes (snd (prt_value (AtomValue (Node t name)) log)) = sink_bytes log @ '' '' @ name)"
proof -
  have seq: "sink_bytes (snd (prt_value (StringValue strs) log)) = sink_bytes log @ concat (map c_str strs)"
    by (simp add: fprintf_strs_eq sink_bytes_append sink_bytes_fprintfs)
  have item: "sink_bytes (snd (prt_value (AtomValue (Node t name)) log)) = sink_bytes log @ '' '' @ c_str name"
    by (simp add: sink_bytes_append) (simp add: sink_bytes_def)
  have seq_plain: "sink_bytes (snd (prt_value (StringValue strs) log)) = sink_bytes log @ concat strs"
    if "\<forall>str\<in>set strs. CHR 0x00 \<notin> set str"
  proof -
    from that have "map c_str strs = strs"
      by (rule map_c_str_without_NUL)
    with seq show ?thesis
      by (simp only:)
  qed
  have item_plain: "sink_bytes (snd (prt_value (AtomValue (Node t name)) log)) = sink_bytes log @ '' '' @ name"
    if "CHR 0x00 \<notin> set name"
  proof -
    from that have "c_str name = name"
      by (rule c_str_without_NUL)
    with item show ?thesis
      by (simp only:)
  qed
  have "prt_value (StringValue strs) log = (Inr (), log @ map (\<lambda>str. Fprintf (c_str str)) strs)"
    by (simp add: fprintf_strs_eq)
  moreover have "prt_value (AtomValue (Node t name)) log = (Inr (), log @ [Fprintf (CHR '' '' # c_str name)])"
    by simp
  ultimately show ?thesis
    using seq item seq_plain item_plain by blast
qed

theorem serialize_text_and_named_item_witness:
  "(CHR 0x00 \<notin> set ''ab'' \<and> CHR 0x00 \<notin> set ''cd'')
   \<and> sink_bytes (snd (prt_value (StringValue [''ab'', ''cd'']) [])) = ''abcd''
   \<and> CHR 0x00 \<notin> set ''foo''
   \<and> sink_bytes (snd (prt_value (AtomValue (Node ITEM_NODE ''foo'')) [])) = '' foo''"
  using serialize_text_and_named_item [of "[''ab'', ''cd'']" "[]" ITEM_NODE "''foo''"]
  by (simp add: sink_bytes_def)

section \<open>Which URLs open a file\<close>

lemma take8_iff: "take 8 url = ''file:///'' \<longleftrightarrow> (\<exists>rest. url = ''file:///'' @ rest)"
proof
  assume "take 8 url = ''file:///''"
  then have "url = ''file:///'' @ drop 8 url"
    by (metis append_take_drop_id)
  then show "\<exists>rest. url = ''file:///'' @ rest" ..
next
  assume "\<exists>rest. url = ''file:///'' @ rest"
  then show "take 8 url = ''file:///''"
    by auto
qed

lemma init_rejects_unless_three_slashes:
  assumes "\<nexists>rest. url = ''file:///'' @ rest"
  shows "TextFileStream_init stale fs url log = (Inl (Unsupported_URL url), log)"
proof -
  from assms have "take 8 url \<noteq> ''file:///''"
    by (simp add: take8_iff)
  then show ?thesis
    by (simp add: TextFileStream_init_def)
qed

lemma init_opens_what_the_pointer_reads:
  assumes "\<exists>rest. url = ''file:///'' @ rest"
  shows "snd (TextFileStream_init stale fs url log) = log @ [Fopen (c_str (stale (drop 7 url)))]"
proof -
  from assms have "take 8 url = ''file:///''"
    by (simp add: take8_iff)
  then show ?thesis
    by (simp add: TextFileStream_init_def Let_def split: sum.splits)
qed

lemma init_keeps_the_url:
  "fst (TextFileStream_init stale fs url log) = Inr s \<Longrightarrow> uri s = url"
  by (auto simp: TextFileStream_init_def Let_def split: if_splits sum.splits)

text \<open>
  Claim C7. The first half is what the code does: \<^verbatim>\<open>file://host/path\<close> and
  \<^verbatim>\<open>file:/path\<close>, like every URL that does not begin with \<^verbatim>\<open>file:///\<close>, are refused with
  the unsupported-URL exception and the log is untouched, so no file has been asked for.
  The second half, that the path of an accepted URL is all that follows the seven
  characters of \<^verbatim>\<open>file://\<close>, is what the comment in the source says too, but not what
  line 95 does: \<^verbatim>\<open>fopen\<close> is called through the pointer into the destroyed substring, so
  the file asked for is what the freed buffer reads as. On
  \<^verbatim>\<open>file:///tmp/stream-output-0123456789.txt\<close>, whose path of 33 characters is held in a
  heap block, that is \<open>c_str (stale path)\<close>, whatever the memory holds by then. With an
  allocator that leaves a text of fewer than 16 characters, held inside the string
  object, as it was, and writes a list link over the first eight bytes of a freed block,
  the six non-zero bytes of that link are opened in place of the path.
\<close>

theorem init_opens_what_the_freed_buffer_holds:
  "TextFileStream_init stale fs ''file://host/path'' log
     = (Inl (Unsupported_URL ''file://host/path''), log)
   \<and> TextFileStream_init stale fs ''file:/path'' log
     = (Inl (Unsupported_URL ''file:/path''), log)
   \<and> snd (TextFileStream_init stale fs ''file:///tmp/stream-output-0123456789.txt'' log)
     = log @ [Fopen (c_str (stale ''/tmp/stream-output-0123456789.txt''))]
   \<and> snd (TextFileStream_init
        (\<lambda>b. if length b < 16 then b
              else [CHR 0xA0, CHR 0xB2, CHR 0x56, CHR 0x55, CHR 0x55, CHR 0x55, CHR 0x00, CHR 0x00]
                   @ drop 8 b)
        fs ''file:///tmp/stream-output-0123456789.txt'' [])
     = [Fopen [CHR 0xA0, CHR 0xB2, CHR 0x56, CHR 0x55, CHR 0x55, CHR 0x55]]
   \<and> [CHR 0xA0, CHR 0xB2, CHR 0x56, CHR 0x55, CHR 0x55, CHR 0x55]
     \<noteq> drop 7 ''file:///tmp/stream-output-0123456789.txt''"
proof (intro conjI)
  show "TextFileStream_init stale fs ''file://host/path'' log
      = (Inl (Unsupported_URL ''file://host/path''), log)"
    by (rule init_rejects_unless_three_slashes) simp
  show "TextFileStream_init stale fs ''file:/path'' log
      = (Inl (Unsupported_URL ''file:/path''), log)"
    by (rule init_rejects_unless_three_slashes) simp
  have form: "\<exists>rest. ''file:///tmp/stream-output-0123456789.txt'' = ''file:///'' @ rest"
    by simp
  from init_opens_what_the_pointer_reads [OF form, of stale fs log]
  show "snd (TextFileStream_init stale fs ''file:///tmp/stream-output-0123456789.txt'' log)
      = log @ [Fopen (c_str (stale ''/tmp/stream-output-0123456789.txt''))]"
    by simp
  from init_opens_what_the_pointer_reads [OF form, of _ fs "[]"]
  show "snd (TextFileStream_init
        (\<lambda>b. if length b < 16 then b
              else [CHR 0xA0, CHR 0xB2, CHR 0x56, CHR 0x55, CHR 0x55, CHR 0x55, CHR 0x00, CHR 0x00]
                   @ drop 8 b)
        fs ''file:///tmp/stream-output-0123456789.txt'' [])
      = [Fopen [CHR 0xA0, CHR 0xB2, CHR 0x56, CHR 0x55, CHR 0x55, CHR 0x55]]"
    by (simp add: c_str_def)
  show "[CHR 0xA0, CHR 0xB2, CHR 0x56, CHR 0x55, CHR 0x55, CHR 0x55]
      \<noteq> drop 7 ''file:///tmp/stream-output-0123456789.txt''"
    by simp
qed

section \<open>The order of the checks in write_out\<close>

text \<open>
  Claim C9. On a stream whose handle is null, \<^verbatim>\<open>write_out\<close> with executable content
  throws the stream-not-open exception and returns the log as it was given: no
  \<open>Execute\<close> entry is added, and the outcome is the same for every evaluation context
  (and, for the terminal session, for every \<^verbatim>\<open>do_write_out\<close>), since none is called.
\<close>

theorem closed_stream_never_evaluates:
  "(fh s = None \<longrightarrow> is_executable ev cref \<longrightarrow>
      (\<exists>e. TextFileStream_write_out s ev cref log = Some (Inl e, log))
      \<and> (\<forall>r log'. TextFileStream_write_out s ev cref log = Some (r, log') \<longrightarrow>
            executions log' = executions log)
      \<and> TextFileStream_write_out s ev' cref log = TextFileStream_write_out s ev cref log)
   \<and> (tfh t = None \<longrightarrow> is_executable ev cref \<longrightarrow>
      (\<exists>e. TerminalStream_write_out do_write_out t ev cref log = Some (Inl e, log))
      \<and> (\<forall>r log'. TerminalStream_write_out do_write_out t ev cref log = Some (r, log') \<longrightarrow>
            executions log' = executions log)
      \<and> TerminalStream_write_out do_write_out' t ev' cref log
          = TerminalStream_write_out do_write_out t ev cref log)"
  by (simp add: TextFileStream_write_out_def TerminalStream_write_out_def)

theorem closed_stream_never_evaluates_witness:
  "fh \<lparr>fh = None, fresh = False, uri = ''file:///tmp/x'', fvalue = []\<rparr> = None
   \<and> is_executable \<lparr>is_executable = (\<lambda>a. True), execute = (\<lambda>a. Some (Plain (StringValue [''boom''])))\<rparr>
        (Link OTHER_LINK [])
   \<and> TextFileStream_write_out \<lparr>fh = None, fresh = False, uri = ''file:///tmp/x'', fvalue = []\<rparr>
        \<lparr>is_executable = (\<lambda>a. True), execute = (\<lambda>a. Some (Plain (StringValue [''boom''])))\<rparr>
        (Link OTHER_LINK []) [Fflush]
       = Some (Inl (Text_stream_not_open_URI ''file:///tmp/x''), [Fflush])
   \<and> executions [Fflush] = []
   \<and> tfh \<lparr>tfh = None, xterm_pid = 0, tvalue = []\<rparr> = None
   \<and> TerminalStream_write_out (\<lambda>ev cref log. Some (Inr (Plain (AtomValue cref)), log @ [Execute cref]))
        \<lparr>tfh = None, xterm_pid = 0, tvalue = []\<rparr>
        \<lparr>is_executable = (\<lambda>a. True), execute = (\<lambda>a. Some (Plain (StringValue [''boom''])))\<rparr>
        (Link OTHER_LINK []) [Fflush]
       = Some (Inl Text_stream_not_open, [Fflush])"
  using closed_stream_never_evaluates
    [of "\<lparr>fh = None, fresh = False, uri = ''file:///tmp/x'', fvalue = []\<rparr>"
        "\<lparr>is_executable = (\<lambda>a. True), execute = (\<lambda>a. Some (Plain (StringValue [''boom''])))\<rparr>"
        "Link OTHER_LINK []" "[Fflush]"
        "\<lparr>is_executable = (\<lambda>a. True), execute = (\<lambda>a. Some (Plain (StringValue [''boom''])))\<rparr>"
        "\<lparr>tfh = None, xterm_pid = 0, tvalue = []\<rparr>"
        "\<lambda>ev cref log. Some (Inr (Plain (AtomValue cref)), log @ [Execute cref])"
        "\<lambda>ev cref log. Some (Inr (Plain (AtomValue cref)), log @ [Execute cref])"]
  by (simp add: TextFileStream_write_out_def TerminalStream_write_out_def executions_def)

section \<open>What the drain loop counts\<close>








end
